theory Spec2Isabelle
  imports Complex_Main
begin

section \<open>JavaScript strings\<close>

text \<open>
  A JavaScript string is a sequence of UTF-16 code units; \<open>length\<close>, \<open>includes\<close>,
  \<open>split\<close> and the regular expressions of the source (none has the \<open>u\<close> flag) all work
  on code units. \<open>str\<close> embeds an ASCII literal.
\<close>

type_synonym jsstring = "nat list"

definition str :: "string \<Rightarrow> jsstring" where
  "str s = map of_char s"

text \<open>
  \<open>String.prototype.toLowerCase\<close>, on the letters A to Z. Code units outside ASCII are
  left as they are: the symbols the source looks for (emoji, stars, box-drawing lines)
  have no case.
\<close>

definition lowerUnit :: "nat \<Rightarrow> nat" where
  "lowerUnit c = (if 65 \<le> c \<and> c \<le> 90 then c + 32 else c)"

definition toLowerCase :: "jsstring \<Rightarrow> jsstring" where
  "toLowerCase s = map lowerUnit s"

text \<open>White space and line terminators, as \<open>trim\<close> and the class \<open>\s\<close> take them.\<close>

definition isSpace :: "nat \<Rightarrow> bool" where
  "isSpace c \<longleftrightarrow>
     c = 9 \<or> c = 10 \<or> c = 11 \<or> c = 12 \<or> c = 13 \<or> c = 32 \<or> c = 0xA0 \<or> c = 0x1680 \<or>
     (0x2000 \<le> c \<and> c \<le> 0x200A) \<or> c = 0x2028 \<or> c = 0x2029 \<or> c = 0x202F \<or>
     c = 0x205F \<or> c = 0x3000 \<or> c = 0xFEFF"

definition isDigit :: "nat \<Rightarrow> bool" where
  "isDigit c \<longleftrightarrow> 48 \<le> c \<and> c \<le> 57"

text \<open>The class \<open>.\<close>: every code unit but a line terminator.\<close>

definition isDot :: "nat \<Rightarrow> bool" where
  "isDot c \<longleftrightarrow> \<not> (c = 10 \<or> c = 13 \<or> c = 0x2028 \<or> c = 0x2029)"

definition trim :: "jsstring \<Rightarrow> jsstring" where
  "trim s = rev (dropWhile isSpace (rev (dropWhile isSpace s)))"

fun startsWith :: "jsstring \<Rightarrow> jsstring \<Rightarrow> bool" where
  "startsWith s [] = True"
| "startsWith [] (y # ys) = False"
| "startsWith (x # xs) (y # ys) = (x = y \<and> startsWith xs ys)"

fun includesStr :: "jsstring \<Rightarrow> jsstring \<Rightarrow> bool" where
  "includesStr [] sub = (sub = [])"
| "includesStr (x # xs) sub = (if startsWith (x # xs) sub then True else includesStr xs sub)"

text \<open>\<open>text.split('\n')\<close>: the pieces between line feeds; the empty string gives a single empty piece.\<close>

fun split_lines :: "jsstring \<Rightarrow> jsstring list" where
  "split_lines [] = [[]]"
| "split_lines (x # xs) =
     (if x = 10 then [] # split_lines xs
      else (case split_lines xs of [] \<Rightarrow> [[x]] | l # ls \<Rightarrow> (x # l) # ls))"

text \<open>
  \<open>parseInt\<close> on a run of decimal digits (the only strings the source passes to it). The
  value is exact; the source's is a binary64 number, the same up to 2^53.
\<close>

definition parseInt :: "jsstring \<Rightarrow> int" where
  "parseInt ds = foldl (\<lambda>a d. 10 * a + (int d - 48)) 0 ds"

section \<open>Regular expressions\<close>

text \<open>
  The regular expressions of the source, as syntax trees, and a backtracking matcher that
  tries alternatives left to right and repetitions longest first, as the JavaScript
  matcher does. In the source every quantifier stands on a single character class
  (\<open>Rep\<close>, with its least and greatest count), except the \<open>?\<close> of the ordinal group of
  \<open>itemRe\<close>, which is \<open>Opt\<close>.
  \<open>Lit True\<close> is a literal under the \<open>i\<close> flag.
\<close>

datatype re =
    Lit bool jsstring
  | Rep "nat \<Rightarrow> bool" nat "nat option"
  | Seq re re
  | Alt re re
  | Opt re
  | Grp nat re

type_synonym caps = "nat \<rightharpoonup> jsstring"

definition upperUnit :: "nat \<Rightarrow> nat" where
  "upperUnit c = (if 97 \<le> c \<and> c \<le> 122 then c - 32 else c)"

definition litMatches :: "bool \<Rightarrow> jsstring \<Rightarrow> jsstring \<Rightarrow> bool" where
  "litMatches ic l s =
     (if ic then startsWith (map upperUnit s) (map upperUnit l) else startsWith s l)"

text \<open>
  A repetition first takes \<open>n\<close> code units, the most it may, and gives them back, the
  last taken first, for as long as the rest of the expression fails.
\<close>

fun backtrack :: "(jsstring \<Rightarrow> 'r option) \<Rightarrow> jsstring \<Rightarrow> nat \<Rightarrow> nat \<Rightarrow> 'r option" where
  "backtrack k s n lo =
     (if n < lo then None
      else (case k (drop n s) of
              Some r \<Rightarrow> Some r
            | None \<Rightarrow> (if n = 0 then None else backtrack k s (n - 1) lo)))"

declare backtrack.simps [simp del]

definition maxRun :: "(nat \<Rightarrow> bool) \<Rightarrow> nat option \<Rightarrow> jsstring \<Rightarrow> nat" where
  "maxRun p hi s =
     (let n = length (takeWhile p s) in case hi of None \<Rightarrow> n | Some h \<Rightarrow> min h n)"

primrec matchRe :: "re \<Rightarrow> (jsstring \<Rightarrow> caps \<Rightarrow> 'r option) \<Rightarrow> jsstring \<Rightarrow> caps \<Rightarrow> 'r option" where
  "matchRe (Lit ic l) k s c =
     (if litMatches ic l s then k (drop (length l) s) c else None)"
| "matchRe (Rep p lo hi) k s c = backtrack (\<lambda>s'. k s' c) s (maxRun p hi s) lo"
| "matchRe (Seq a b) k s c = matchRe a (matchRe b k) s c"
| "matchRe (Alt a b) k s c =
     (case matchRe a k s c of Some r \<Rightarrow> Some r | None \<Rightarrow> matchRe b k s c)"
| "matchRe (Opt a) k s c =
     (case matchRe a k s c of Some r \<Rightarrow> Some r | None \<Rightarrow> k s c)"
| "matchRe (Grp n a) k s c =
     matchRe a (\<lambda>s' c'. k s' (c'(n \<mapsto> take (length s - length s') s))) s c"

text \<open>
  The text of a group. Every group the source reads takes part in every match of its
  expression, except the two of the rating expression, which are tested first.
\<close>

definition group :: "caps \<Rightarrow> nat \<Rightarrow> jsstring" where
  "group c n = (case c n of None \<Rightarrow> [] | Some g \<Rightarrow> g)"

definition finish :: "jsstring \<Rightarrow> caps \<Rightarrow> (jsstring \<times> caps) option" where
  "finish s c = Some (s, c)"

text \<open>A match anchored at the start (\<open>^\<close>): the rest of the input and the groups.\<close>

definition matchAt :: "re \<Rightarrow> jsstring \<Rightarrow> (jsstring \<times> caps) option" where
  "matchAt r s = matchRe r finish s Map.empty"

text \<open>\<open>s.match(r)\<close> without the \<open>g\<close> flag: the leftmost match.\<close>

fun match :: "re \<Rightarrow> jsstring \<Rightarrow> (jsstring \<times> caps) option" where
  "match r [] = matchAt r []"
| "match r (x # xs) =
     (case matchAt r (x # xs) of Some m \<Rightarrow> Some m | None \<Rightarrow> match r xs)"

fun seq :: "re list \<Rightarrow> re" where
  "seq [] = Lit False []"
| "seq [r] = r"
| "seq (r # rs) = Seq r (seq rs)"

fun alts :: "re list \<Rightarrow> re" where
  "alts [] = Lit False []"
| "alts [r] = r"
| "alts (r # rs) = Alt r (alts rs)"

definition lit :: "string \<Rightarrow> re" where
  "lit s = Lit False (str s)"

definition liti :: "string \<Rightarrow> re" where
  "liti s = Lit True (str s)"

definition isUnit :: "nat \<Rightarrow> nat \<Rightarrow> bool" where
  "isUnit x c \<longleftrightarrow> c = x"

definition notUnit :: "nat \<Rightarrow> nat \<Rightarrow> bool" where
  "notUnit x c \<longleftrightarrow> c \<noteq> x"

text \<open>\<open>+\<close>, \<open>*\<close> and \<open>?\<close> on a class.\<close>

definition plusOf :: "(nat \<Rightarrow> bool) \<Rightarrow> re" where
  "plusOf p = Rep p 1 None"

definition starOf :: "(nat \<Rightarrow> bool) \<Rightarrow> re" where
  "starOf p = Rep p 0 None"

definition optOf :: "(nat \<Rightarrow> bool) \<Rightarrow> re" where
  "optOf p = Rep p 0 (Some 1)"

section \<open>The import text parser\<close>

text \<open>The interface \<open>ParsedItem\<close> of the import modal.\<close>

record ParsedItem =
  pTitle :: jsstring
  pAuthor :: jsstring
  pYear :: "int option"
  pRating :: "int option"
  pNotes :: "jsstring option"
  pFormat :: "jsstring option"
  pCategory :: jsstring
  pIsBook :: bool
  pConfidence :: rat

datatype itemType = typeBook | typeMovie | typeUnknown

definition completedKeywords :: "jsstring list" where
  "completedKeywords =
     [str ''completed'', str ''finished'', str ''done'', str ''read'', str ''watched'',
      [0x2705], [0x2713]]"

definition inProgressKeywords :: "jsstring list" where
  "inProgressKeywords =
     [str ''reading'', str ''watching'', str ''current'', str ''in progress'',
      [0xD83D, 0xDCD6], [0xD83C, 0xDFA5]]"

definition plannedKeywords :: "jsstring list" where
  "plannedKeywords =
     [str ''want to'', str ''planned'', str ''to read'', str ''to watch'', str ''wishlist'',
      [0xD83D, 0xDCCB], [0xD83C, 0xDFAF]]"

definition failsKeywords :: "jsstring list" where
  "failsKeywords =
     [str ''dnf'', str ''stopped'', str ''abandoned'', str ''did not finish'', [0x274C]]"

text \<open>The last keyword is the emoji U+2B50, which the export writes before every rating.\<close>

definition allTimeKeywords :: "jsstring list" where
  "allTimeKeywords =
     [str ''favorite'', str ''all time'', str ''best'', [0xD83C, 0xDFC6], [0x2B50]]"

definition bookKeywords :: "jsstring list" where
  "bookKeywords =
     [str ''book'', str ''novel'', str ''author'', str ''read'', str ''reading'',
      [0xD83D, 0xDCDA], str ''isbn'']"

definition movieKeywords :: "jsstring list" where
  "movieKeywords =
     [str ''movie'', str ''film'', str ''director'', str ''watched'', str ''watching'',
      [0xD83C, 0xDFAC], str ''cinema'']"

definition someIn :: "jsstring list \<Rightarrow> jsstring \<Rightarrow> bool" where
  "someIn kws lowerLine = list_ex (\<lambda>kw. includesStr lowerLine kw) kws"

text \<open>The regular expressions of the parser, in the order of the source.\<close>

definition itemRe :: re where
  "itemRe = Seq (Opt (Grp 1 (seq [plusOf isDigit, optOf (isUnit 46), starOf isSpace])))
               (Grp 2 (plusOf isDot))"

definition patterns :: "re list" where
  "patterns =
     [seq [lit ''\"'', Grp 1 (plusOf (notUnit 34)), lit ''\"'', plusOf isSpace, liti ''by'',
           plusOf isSpace, Grp 2 (plusOf (notUnit 40))],
      seq [Grp 1 (plusOf (notUnit 45)), plusOf isSpace, lit ''-'', plusOf isSpace,
           Grp 2 (plusOf (notUnit 40))],
      seq [Grp 1 (plusOf (notUnit 44)), lit '','', plusOf isSpace, Grp 2 (plusOf (notUnit 40))],
      seq [Grp 1 (plusOf (notUnit 40)), plusOf isSpace, liti ''by'', plusOf isSpace,
           Grp 2 (plusOf (notUnit 40))]]"

definition ordinalRe :: re where
  "ordinalRe = seq [plusOf isDigit, optOf (isUnit 46), starOf isSpace]"

definition yearRe :: re where
  "yearRe = seq [lit ''('', Grp 1 (Rep isDigit 4 (Some 4)), lit '')'']"

definition ratingRe :: re where
  "ratingRe =
     alts [seq [Grp 1 (plusOf isDigit), lit ''/5''],
           seq [Lit False [0x2B50], starOf isSpace, Grp 2 (plusOf isDigit)],
           plusOf (isUnit 0x2605)]"

definition notesQuotedRe :: re where
  "notesQuotedRe =
     seq [liti ''note'', Rep (\<lambda>c. upperUnit c = 83) 0 (Some 1), lit '':'', starOf isSpace,
          lit ''\"'', Grp 1 (plusOf (notUnit 34)), lit ''\"'']"

definition notesPlainRe :: re where
  "notesPlainRe =
     seq [liti ''note'', Rep (\<lambda>c. upperUnit c = 83) 0 (Some 1), lit '':'', starOf isSpace,
          Grp 1 (plusOf (\<lambda>c. c \<noteq> 45 \<and> c \<noteq> 10))]"

definition formatRe :: re where
  "formatRe =
     seq [lit ''['',
          Grp 1 (alts [liti ''hardcopy'', liti ''audio'', liti ''ebook'', liti ''streaming'',
                       liti ''theater'', liti ''blu-ray'', liti ''dvd'']),
          lit '']'']"

text \<open>
  \<open>s.replace(/^["']|["']$/g, '')\<close>: a quote at the very start goes, then a quote at the
  very end of what is left.
\<close>

definition isQuote :: "nat \<Rightarrow> bool" where
  "isQuote c \<longleftrightarrow> c = 34 \<or> c = 39"

definition stripQuotes :: "jsstring \<Rightarrow> jsstring" where
  "stripQuotes s =
     (let s1 = (case s of [] \<Rightarrow> [] | x # xs \<Rightarrow> if isQuote x then xs else s)
      in if s1 \<noteq> [] \<and> isQuote (last s1) then butlast s1 else s1)"

text \<open>The loop over \<open>patterns\<close>: the first pattern that matches gives title and author.\<close>

fun firstPattern :: "re list \<Rightarrow> jsstring \<Rightarrow> (jsstring \<times> jsstring) option" where
  "firstPattern [] itemText = None"
| "firstPattern (pattern # rest) itemText =
     (case match pattern itemText of
        Some (r, c) \<Rightarrow> Some (stripQuotes (trim (group c 1)), trim (group c 2))
      | None \<Rightarrow> firstPattern rest itemText)"

text \<open>\<open>cleanText.split(/[(\[\-]/)[0]\<close>: what stands before the first of \<open>(\<close>, \<open>[\<close>, \<open>-\<close>.\<close>

definition beforeBracket :: "jsstring \<Rightarrow> jsstring" where
  "beforeBracket s = takeWhile (\<lambda>c. c \<noteq> 40 \<and> c \<noteq> 91 \<and> c \<noteq> 45) s"

definition titleAuthor :: "jsstring \<Rightarrow> jsstring \<times> jsstring" where
  "titleAuthor itemText =
     (case firstPattern patterns itemText of
        Some ta \<Rightarrow> ta
      | None \<Rightarrow>
          (let cleanText =
                 trim (case matchAt ordinalRe itemText of
                         Some (r, c) \<Rightarrow> r | None \<Rightarrow> itemText)
           in if length cleanText > 0 then (trim (beforeBracket cleanText), str ''Unknown'')
              else ([], [])))"

definition extractYear :: "jsstring \<Rightarrow> int option" where
  "extractYear itemText =
     (case match yearRe itemText of
        Some (r, c) \<Rightarrow> Some (parseInt (group c 1))
      | None \<Rightarrow> None)"

definition extractRating :: "jsstring \<Rightarrow> int option" where
  "extractRating itemText =
     (case match ratingRe itemText of
        None \<Rightarrow> None
      | Some (r, c) \<Rightarrow>
          (case c 1 of
             Some d \<Rightarrow> Some (parseInt d)
           | None \<Rightarrow>
               (case c 2 of
                  Some d \<Rightarrow> Some (parseInt d)
                | None \<Rightarrow> Some (int (length (filter (isUnit 0x2605) itemText))))))"

definition extractNotes :: "jsstring \<Rightarrow> jsstring" where
  "extractNotes itemText =
     (case match notesQuotedRe itemText of
        Some (r, c) \<Rightarrow> trim (group c 1)
      | None \<Rightarrow>
          (case match notesPlainRe itemText of
             Some (r, c) \<Rightarrow> trim (group c 1)
           | None \<Rightarrow> []))"

definition extractFormat :: "jsstring \<Rightarrow> jsstring" where
  "extractFormat itemText =
     (case match formatRe itemText of
        Some (r, c) \<Rightarrow> toLowerCase (group c 1)
      | None \<Rightarrow> [])"

definition score :: "jsstring list \<Rightarrow> jsstring \<Rightarrow> nat" where
  "score kws lowerLine = foldl (\<lambda>sc kw. sc + (if includesStr lowerLine kw then 1 else 0)) 0 kws"

definition resolveIsBook :: "itemType \<Rightarrow> jsstring \<Rightarrow> bool" where
  "resolveIsBook currentType lowerLine =
     (if currentType = typeUnknown then
        (let bookScore = score bookKeywords lowerLine;
             movieScore = score movieKeywords lowerLine
         in if bookScore > movieScore then True
            else if movieScore > bookScore then False
            else \<not> includesStr lowerLine (str ''director'') \<and> \<not> includesStr lowerLine (str ''film''))
      else currentType = typeBook)"

text \<open>
  The score is kept as an exact rational. The source adds binary64 numbers, whose sums
  differ from these by rounding in the last place; the cap \<open>Math.min(confidence, 1.0)\<close>
  gives exactly 1 in both.
\<close>

definition confidenceOf ::
  "jsstring \<Rightarrow> jsstring \<Rightarrow> int option \<Rightarrow> int option \<Rightarrow> jsstring \<Rightarrow> rat" where
  "confidenceOf t a y r f =
     (let c0 = 0.5;
          c1 = (if t \<noteq> [] \<and> a \<noteq> [] \<and> a \<noteq> str ''Unknown'' then c0 + 0.3 else c0);
          c2 = (if y \<noteq> None \<and> y \<noteq> Some 0 then c1 + 0.1 else c1);
          c3 = (if r \<noteq> None \<and> r \<noteq> Some 0 then c2 + 0.1 else c2);
          c4 = (if f \<noteq> [] then c3 + 0.1 else c3)
      in c4)"

text \<open>An item line: the body of the loop after the header tests.\<close>

definition parseItem :: "jsstring \<Rightarrow> itemType \<Rightarrow> jsstring \<Rightarrow> ParsedItem option" where
  "parseItem currentCategory currentType line =
     (case matchAt itemRe line of
        None \<Rightarrow> None
      | Some (r, c) \<Rightarrow>
          (let itemText = trim (group c 2);
               lowerLine = toLowerCase line;
               (t, a) = titleAuthor itemText;
               y = extractYear itemText;
               rt = extractRating itemText;
               n = extractNotes itemText;
               f = extractFormat itemText;
               b = resolveIsBook currentType lowerLine;
               conf = confidenceOf t a y rt f
           in if t \<noteq> [] \<and> length t > 1 then
                Some \<lparr>pTitle = t, pAuthor = (if a \<noteq> [] then a else str ''Unknown''),
                      pYear = y, pRating = rt,
                      pNotes = (if n \<noteq> [] then Some n else None),
                      pFormat = (if f \<noteq> [] then Some f else None),
                      pCategory = currentCategory, pIsBook = b,
                      pConfidence = min conf 1.0\<rparr>
              else None))"

text \<open>
  The header tests, in the order of the source; each sets the carried category and type
  and consumes the line. A line that passes them all and is no export boilerplate is an
  item line.
\<close>

definition headerType :: "itemType \<Rightarrow> jsstring \<Rightarrow> itemType" where
  "headerType currentType lowerLine =
     (if includesStr lowerLine (str ''book'') \<or> someIn bookKeywords lowerLine then typeBook
      else if includesStr lowerLine (str ''movie'') \<or> someIn movieKeywords lowerLine then typeMovie
      else currentType)"

definition parseLine ::
  "jsstring \<Rightarrow> itemType \<Rightarrow> jsstring \<Rightarrow> jsstring \<times> itemType \<times> ParsedItem option" where
  "parseLine currentCategory currentType line =
     (let lowerLine = toLowerCase line in
      if includesStr lowerLine (str ''book'') \<and>
         (someIn completedKeywords lowerLine \<or> includesStr lowerLine (str ''completed''))
      then (str ''completed'', typeBook, None)
      else if includesStr lowerLine (str ''movie'') \<and>
         (someIn completedKeywords lowerLine \<or> includesStr lowerLine (str ''completed''))
      then (str ''completed'', typeMovie, None)
      else if someIn inProgressKeywords lowerLine
      then (str ''inProgress'', headerType currentType lowerLine, None)
      else if someIn plannedKeywords lowerLine
      then (str ''planned'', headerType currentType lowerLine, None)
      else if someIn failsKeywords lowerLine
      then (str ''fails'', currentType, None)
      else if someIn allTimeKeywords lowerLine
      then (str ''allTime'', currentType, None)
      else if includesStr lowerLine (str ''generated'') \<or> includesStr lowerLine (str ''export'') \<or>
              includesStr lowerLine [0x2550] \<or> includesStr lowerLine [0x2500]
      then (currentCategory, currentType, None)
      else (currentCategory, currentType, parseItem currentCategory currentType line))"

fun parseLines :: "jsstring \<Rightarrow> itemType \<Rightarrow> jsstring list \<Rightarrow> ParsedItem list" where
  "parseLines currentCategory currentType [] = []"
| "parseLines currentCategory currentType (line # lines) =
     (case parseLine currentCategory currentType line of
        (cat, ty, None) \<Rightarrow> parseLines cat ty lines
      | (cat, ty, Some item) \<Rightarrow> item # parseLines cat ty lines)"

definition parseImportText :: "jsstring \<Rightarrow> ParsedItem list" where
  "parseImportText input =
     parseLines (str ''completed'') typeUnknown
       (filter (\<lambda>line. length (trim line) > 0) (split_lines input))"


section \<open>The catalog store\<close>

text \<open>
  Modelled from the spec: the declarations \<open>Book\<close>, \<open>Movie\<close>, \<open>BookData\<close> and \<open>MovieData\<close>
  of the module \<open>@/types\<close> are not among the sources. The records below follow section 3
  of the spec and the fields the store reads and writes. An optional field is an
  \<open>option\<close>, \<open>None\<close> standing for \<open>undefined\<close>. \<open>BookInput\<close> is \<open>Omit<Book, 'id'>\<close>, and a
  \<open>Book\<close> is the input extended by its id, as the spread \<open>{ ...book, id: uniqueId }\<close> builds
  it. The category is a string at run time, whatever the declared union says.

  Numbers are exact: integers for year, rating and percentage, and a rational for the id,
  which \<open>importItems\<close> computes as \<open>Date.now() + Math.random() * 1000\<close>. Movies have the
  same shape, and \<open>addMovie\<close>, \<open>updateMovie\<close>, \<open>deleteMovie\<close>, \<open>reorderMovies\<close> and the movie
  half of \<open>importItems\<close> are the text of the book functions on a second catalog, so one
  set of definitions serves both.
\<close>

record BookInput =
  title :: jsstring
  author :: jsstring
  year :: int
  category :: "jsstring option"
  rating :: "int option"
  format :: "jsstring option"
  percentage :: "int option"
  notes' :: "jsstring option"
  source :: "jsstring option"
  completedDate :: "jsstring option"
  dateStarted :: "jsstring option"
  dateAdded :: "jsstring option"
  dateAbandoned :: "jsstring option"
  isAllTime :: "bool option"

record Book = BookInput +
  id' :: rat

text \<open>
  A bucket is an array of books. Its entries are \<open>option\<close>s because \<open>reorderBooks\<close> can
  store \<open>undefined\<close> in an array (see \<open>reorderBooks\<close>); every callback that reads a field
  of such an entry throws.
\<close>

type_synonym bucket = "Book option list"

record BookData =
  completed :: bucket
  inProgress :: bucket
  planned :: bucket
  fails :: bucket
  allTime :: bucket

datatype key = Completed | InProgress | Planned | Fails | AllTime

text \<open>\<open>Object.keys(prevBooks)\<close>: the own keys, in the order the object literal gives them.\<close>

definition objectKeys :: "key list" where
  "objectKeys = [Completed, InProgress, Planned, Fails, AllTime]"

text \<open>The own property a name selects, if any. The name \<open>undefined\<close> selects none.\<close>

definition keyOf :: "jsstring option \<Rightarrow> key option" where
  "keyOf c =
     (if c = Some (str ''completed'') then Some Completed
      else if c = Some (str ''inProgress'') then Some InProgress
      else if c = Some (str ''planned'') then Some Planned
      else if c = Some (str ''fails'') then Some Fails
      else if c = Some (str ''allTime'') then Some AllTime
      else None)"

text \<open>
  A catalog is a plain object, so a name that is no bucket may still select a member
  inherited from \<open>Object.prototype\<close>: a function or an object, truthy and no array.
\<close>

definition objectPrototypeKeys :: "jsstring list" where
  "objectPrototypeKeys =
     [str ''constructor'', str ''__defineGetter__'', str ''__defineSetter__'',
      str ''hasOwnProperty'', str ''__lookupGetter__'', str ''__lookupSetter__'',
      str ''isPrototypeOf'', str ''propertyIsEnumerable'', str ''toString'',
      str ''valueOf'', str ''__proto__'', str ''toLocaleString'']"

definition inherited :: "jsstring option \<Rightarrow> bool" where
  "inherited c = (case c of None \<Rightarrow> False | Some n \<Rightarrow> n \<in> set objectPrototypeKeys)"

definition getBucket :: "BookData \<Rightarrow> key \<Rightarrow> bucket" where
  "getBucket d k = (case k of Completed \<Rightarrow> completed d | InProgress \<Rightarrow> inProgress d
                    | Planned \<Rightarrow> planned d | Fails \<Rightarrow> fails d | AllTime \<Rightarrow> allTime d)"

definition setBucket :: "BookData \<Rightarrow> key \<Rightarrow> bucket \<Rightarrow> BookData" where
  "setBucket d k b =
     (case k of Completed \<Rightarrow> d\<lparr>completed := b\<rparr> | InProgress \<Rightarrow> d\<lparr>inProgress := b\<rparr>
      | Planned \<Rightarrow> d\<lparr>planned := b\<rparr> | Fails \<Rightarrow> d\<lparr>fails := b\<rparr> | AllTime \<Rightarrow> d\<lparr>allTime := b\<rparr>)"

text \<open>
  A state updater either returns the next state or throws. React runs the updaters an
  operation queues one after the other, each on the state the one before returned.
\<close>

datatype error = TypeError

type_synonym 'a result = "error + 'a"

definition andThen :: "'a result \<Rightarrow> ('a \<Rightarrow> 'b result) \<Rightarrow> 'b result" where
  "andThen r f = (case r of Inl e \<Rightarrow> Inl e | Inr x \<Rightarrow> f x)"

text \<open>\<open>items.filter(item => item.id !== id)\<close>; reading \<open>id\<close> of \<open>undefined\<close> throws.\<close>

fun filterId :: "rat \<Rightarrow> bucket \<Rightarrow> bucket result" where
  "filterId i [] = Inr []"
| "filterId i (None # rest) = Inl TypeError"
| "filterId i (Some item # rest) =
     andThen (filterId i rest) (\<lambda>r. Inr (if id' item \<noteq> i then Some item # r else r))"

text \<open>\<open>items.some(book => book.id === id)\<close>, which stops at the first hit.\<close>

fun someId :: "rat \<Rightarrow> bucket \<Rightarrow> bool result" where
  "someId i [] = Inr False"
| "someId i (None # rest) = Inl TypeError"
| "someId i (Some item # rest) = (if id' item = i then Inr True else someId i rest)"

text \<open>The duplicate test of \<open>addBook\<close>: same title and same author, both in lower case.\<close>

definition sameWork :: "'a BookInput_scheme \<Rightarrow> 'b BookInput_scheme \<Rightarrow> bool" where
  "sameWork item newBook \<longleftrightarrow>
     toLowerCase (title item) = toLowerCase (title newBook) \<and>
     toLowerCase (author item) = toLowerCase (author newBook)"

fun isDuplicate :: "Book \<Rightarrow> bucket \<Rightarrow> bool result" where
  "isDuplicate newBook [] = Inr False"
| "isDuplicate newBook (None # rest) = Inl TypeError"
| "isDuplicate newBook (Some item # rest) =
     (if sameWork item newBook then Inr True else isDuplicate newBook rest)"

subsection \<open>addBook\<close>

text \<open>
  \<open>now\<close> is the reading of \<open>Date.now()\<close> and \<open>random\<close> the number \<open>Math.random()\<close> returns
  (at least 0, below 1) during the call. Product and sum are exact here; the source
  rounds each to binary64, which agrees on the dyadic values the theorems below use.
\<close>

definition uniqueId :: "int \<Rightarrow> rat \<Rightarrow> rat" where
  "uniqueId now random = of_int now + of_int \<lfloor>random * 100000\<rfloor>"

text \<open>\<open>x || y\<close> on a string and on a number: the empty string and 0 are falsy, as \<open>undefined\<close> is.\<close>

definition truthyStr :: "jsstring option \<Rightarrow> bool" where
  "truthyStr x = (case x of None \<Rightarrow> False | Some s \<Rightarrow> s \<noteq> [])"

definition truthyNum :: "int option \<Rightarrow> bool" where
  "truthyNum x = (case x of None \<Rightarrow> False | Some n \<Rightarrow> n \<noteq> 0)"

definition newBookOf :: "int \<Rightarrow> rat \<Rightarrow> BookInput \<Rightarrow> Book" where
  "newBookOf now random book =
     (BookInput.extend book (Book.fields (uniqueId now random)))
       \<lparr>category := (if truthyStr (category book) then category book else Some (str ''planned'')),
        percentage := (if truthyNum (percentage book) then percentage book
                       else if category book = Some (str ''completed'') then Some 100
                       else Some 0)\<rparr>"

text \<open>The first updater: validate the category, look for a duplicate, append.\<close>

definition addUpdater :: "Book \<Rightarrow> BookData \<Rightarrow> BookData result" where
  "addUpdater newBook prevBooks =
     (case keyOf (category newBook) of
        None \<Rightarrow> if inherited (category newBook) then Inl TypeError else Inr prevBooks
      | Some k \<Rightarrow>
          andThen (isDuplicate newBook (getBucket prevBooks k))
            (\<lambda>dup. if dup then Inr prevBooks
                    else Inr (setBucket prevBooks k (getBucket prevBooks k @ [Some newBook]))))"

text \<open>The all-time updater, shared by \<open>addBook\<close>, \<open>updateBook\<close> and \<open>importItems\<close>.\<close>

definition mirrorAllTime :: "Book \<Rightarrow> BookData \<Rightarrow> BookData result" where
  "mirrorAllTime newBook prevBooks =
     andThen (filterId (id' newBook) (allTime prevBooks))
       (\<lambda>rest. Inr (prevBooks\<lparr>allTime := rest @ [Some (newBook\<lparr>isAllTime := Some True\<rparr>)]\<rparr>))"

definition addBook :: "int \<Rightarrow> rat \<Rightarrow> BookInput \<Rightarrow> BookData \<Rightarrow> BookData result" where
  "addBook now random book prevBooks =
     (let newBook = newBookOf now random book in
      andThen (addUpdater newBook prevBooks)
        (\<lambda>s. if isAllTime newBook = Some True \<and> category newBook \<noteq> Some (str ''allTime'')
              then mirrorAllTime newBook s else Inr s))"

subsection \<open>updateBook\<close>

fun findCategory :: "rat \<Rightarrow> BookData \<Rightarrow> key list \<Rightarrow> key option result" where
  "findCategory bookId prevBooks [] = Inr None"
| "findCategory bookId prevBooks (k # ks) =
     andThen (someId bookId (getBucket prevBooks k))
       (\<lambda>found. if found then Inr (Some k) else findCategory bookId prevBooks ks)"

text \<open>The loop that filters the id out of every bucket, in key order.\<close>

fun removeEverywhere :: "rat \<Rightarrow> BookData \<Rightarrow> key list \<Rightarrow> BookData \<Rightarrow> BookData result" where
  "removeEverywhere bookId prevBooks [] newBooks = Inr newBooks"
| "removeEverywhere bookId prevBooks (k # ks) newBooks =
     andThen (filterId bookId (getBucket prevBooks k))
       (\<lambda>b. removeEverywhere bookId prevBooks ks (setBucket newBooks k b))"

definition updateUpdater :: "rat \<Rightarrow> Book \<Rightarrow> BookData \<Rightarrow> BookData result" where
  "updateUpdater bookId updatedBook prevBooks =
     andThen (findCategory bookId prevBooks objectKeys)
       (\<lambda>oldCategory. case oldCategory of
          None \<Rightarrow> Inr prevBooks
        | Some old \<Rightarrow>
            andThen (removeEverywhere bookId prevBooks objectKeys prevBooks)
              (\<lambda>newBooks. case keyOf (category updatedBook) of
                 None \<Rightarrow> Inl TypeError
               | Some k \<Rightarrow>
                   Inr (setBucket newBooks k (getBucket newBooks k @ [Some updatedBook]))))"

definition allTimeUpdater :: "Book \<Rightarrow> BookData \<Rightarrow> BookData result" where
  "allTimeUpdater updatedBook prevBooks =
     (if isAllTime updatedBook = Some True \<and> category updatedBook \<noteq> Some (str ''allTime'')
      then mirrorAllTime updatedBook prevBooks
      else if isAllTime updatedBook \<noteq> Some True
      then andThen (filterId (id' updatedBook) (allTime prevBooks))
             (\<lambda>rest. Inr (prevBooks\<lparr>allTime := rest\<rparr>))
      else Inr prevBooks)"

definition updateBook :: "rat \<Rightarrow> Book \<Rightarrow> BookData \<Rightarrow> BookData result" where
  "updateBook bookId updatedBook prevBooks =
     andThen (updateUpdater bookId updatedBook prevBooks) (allTimeUpdater updatedBook)"

subsection \<open>deleteBook\<close>

definition deleteBook :: "rat \<Rightarrow> jsstring \<Rightarrow> BookData \<Rightarrow> BookData result" where
  "deleteBook bookId cat prevBooks =
     andThen
       (case keyOf (Some cat) of
          None \<Rightarrow> Inl TypeError
        | Some k \<Rightarrow>
            andThen (filterId bookId (getBucket prevBooks k))
              (\<lambda>b. Inr (setBucket prevBooks k b)))
       (\<lambda>s. andThen (filterId bookId (allTime s)) (\<lambda>rest. Inr (s\<lparr>allTime := rest\<rparr>)))"

subsection \<open>reorderBooks\<close>

text \<open>
  \<open>Array.prototype.splice\<close> clamps its start: a negative start counts from the end, a
  start past the end is the end. \<open>items.splice(fromIndex, 1)\<close> removes at most one entry,
  and none when the clamped start is the end; the destructuring \<open>[movedItem]\<close> of an empty
  array gives \<open>undefined\<close>, which the second \<open>splice\<close> then inserts.
\<close>

definition spliceStart :: "int \<Rightarrow> nat \<Rightarrow> nat" where
  "spliceStart start len =
     (if start < 0 then nat (max (int len + start) 0) else min (nat start) len)"

definition reorderBooks :: "jsstring \<Rightarrow> int \<Rightarrow> int \<Rightarrow> BookData \<Rightarrow> BookData result" where
  "reorderBooks cat fromIndex toIndex prevBooks =
     (case keyOf (Some cat) of
        None \<Rightarrow> Inl TypeError
      | Some k \<Rightarrow>
          (let items = getBucket prevBooks k;
               i = spliceStart fromIndex (length items);
               removed = take 1 (drop i items);
               items1 = take i items @ drop (i + 1) items;
               movedItem = (case removed of [] \<Rightarrow> None | x # xs \<Rightarrow> x);
               j = spliceStart toIndex (length items1);
               items2 = take j items1 @ [movedItem] @ drop j items1
           in Inr (setBucket prevBooks k items2)))"

subsection \<open>importItems\<close>

text \<open>
  Each imported book comes with the clock reading and the random number drawn for it.
  The id is not rounded, and neither category nor duplicates are checked.
\<close>

definition importOne :: "int \<times> rat \<times> BookInput \<Rightarrow> BookData \<Rightarrow> BookData result" where
  "importOne e newBooks =
     (case e of (now, random, book) \<Rightarrow>
        (let newBook = BookInput.extend book (Book.fields (of_int now + random * 1000)) in
         case keyOf (category book) of
           None \<Rightarrow> Inl TypeError
         | Some k \<Rightarrow>
             (let s = setBucket newBooks k (getBucket newBooks k @ [Some newBook]) in
              if isAllTime book = Some True \<and> category book \<noteq> Some (str ''allTime'')
              then mirrorAllTime newBook s else Inr s)))"

fun importLoop :: "(int \<times> rat \<times> BookInput) list \<Rightarrow> BookData \<Rightarrow> BookData result" where
  "importLoop [] newBooks = Inr newBooks"
| "importLoop (e # es) newBooks = andThen (importOne e newBooks) (importLoop es)"

definition importItems :: "(int \<times> rat \<times> BookInput) list \<Rightarrow> BookData \<Rightarrow> BookData result" where
  "importItems importedBooks prevBooks =
     (if length importedBooks > 0 then importLoop importedBooks prevBooks else Inr prevBooks)"


subsection \<open>logDataState\<close>

text \<open>
  The effect the provider runs after every change of the book state. It logs the length of
  every bucket and, when \<open>planned\<close> is not empty, maps the planned books to their id, title,
  author and category; the callback reads these fields, so an \<open>undefined\<close> entry makes the
  effect throw.
\<close>

fun plannedDetails :: "bucket \<Rightarrow> (rat \<times> jsstring \<times> jsstring \<times> jsstring option) list result" where
  "plannedDetails [] = Inr []"
| "plannedDetails (None # rest) = Inl TypeError"
| "plannedDetails (Some book # rest) =
     andThen (plannedDetails rest)
       (\<lambda>r. Inr ((id' book, title book, author book, category book) # r))"

definition logDataState :: "BookData \<Rightarrow> unit result" where
  "logDataState currentBooks =
     (if length (planned currentBooks) > 0
      then andThen (plannedDetails (planned currentBooks)) (\<lambda>details. Inr ())
      else Inr ())"

subsection \<open>The initial catalog\<close>

text \<open>An item with the four fields every literal of the source sets, and nothing else.\<close>

definition plainItem :: "string \<Rightarrow> string \<Rightarrow> int \<Rightarrow> string \<Rightarrow> BookInput" where
  "plainItem t a y c =
     \<lparr>title = str t, author = str a, year = y, category = Some (str c), rating = None,
      format = None, percentage = None, notes' = None, source = None, completedDate = None,
      dateStarted = None, dateAdded = None, dateAbandoned = None, isAllTime = None\<rparr>"

definition withId :: "rat \<Rightarrow> BookInput \<Rightarrow> Book" where
  "withId i b = BookInput.extend b (Book.fields i)"

definition initialBooks :: BookData where
  "initialBooks =
     \<lparr>completed =
        [Some (withId 1 ((plainItem ''The Wager'' ''David Grann'' 2024 ''completed'')
                 \<lparr>rating := Some 4, format := Some (str ''text''),
                  completedDate := Some (str ''2024-01-15'')\<rparr>)),
         Some (withId 2 ((plainItem ''The Devil's Star'' ''Jo Nesbo'' 2024 ''completed'')
                 \<lparr>rating := Some 3, format := Some (str ''text''),
                  completedDate := Some (str ''2024-02-10'')\<rparr>))],
      inProgress =
        [Some (withId 100 ((plainItem ''James'' ''Percival Everett'' 2025 ''inProgress'')
                 \<lparr>percentage := Some 50, format := Some (str ''text''),
                  dateStarted := Some (str ''2025-01-20'')\<rparr>))],
      planned =
        [Some (withId 200 ((plainItem ''Project Hail Mary'' ''Andy Weir'' 2025 ''planned'')
                 \<lparr>format := Some (str ''text''), dateAdded := Some (str ''2025-01-20'')\<rparr>))],
      fails =
        [Some (withId 300 ((plainItem ''First Life'' ''Unknown'' 2024 ''fails'')
                 \<lparr>percentage := Some 5, format := Some (str ''text''),
                  dateAbandoned := Some (str ''2024-03-15'')\<rparr>))],
      allTime =
        [Some (withId 400 ((plainItem ''The Lord of the Rings'' ''J.R.R. Tolkien'' 2023 ''allTime'')
                 \<lparr>rating := Some 5, format := Some (str ''text''),
                  completedDate := Some (str ''2023-08-15''), isAllTime := Some True,
                  notes' := Some (str ''Life-changing epic fantasy'')\<rparr>))]\<rparr>"

subsection \<open>Properties of a catalog\<close>

text \<open>The per-bucket uniqueness of section 3: no two items of a bucket are the same work.\<close>

definition workKey :: "Book \<Rightarrow> jsstring \<times> jsstring" where
  "workKey b = (toLowerCase (title b), toLowerCase (author b))"

definition uniqueBucket :: "bucket \<Rightarrow> bool" where
  "uniqueBucket b = distinct (map workKey (List.map_filter id b))"

definition noDuplicates :: "BookData \<Rightarrow> bool" where
  "noDuplicates d \<longleftrightarrow>
     uniqueBucket (completed d) \<and> uniqueBucket (inProgress d) \<and> uniqueBucket (planned d) \<and>
     uniqueBucket (fails d) \<and> uniqueBucket (allTime d)"

text \<open>A catalog none of whose buckets holds \<open>undefined\<close>.\<close>

definition noHoles :: "BookData \<Rightarrow> bool" where
  "noHoles d \<longleftrightarrow>
     None \<notin> set (completed d) \<and> None \<notin> set (inProgress d) \<and> None \<notin> set (planned d) \<and>
     None \<notin> set (fails d) \<and> None \<notin> set (allTime d)"

text \<open>The ids of a bucket, in order.\<close>

definition idsOf :: "bucket \<Rightarrow> rat list" where
  "idsOf b = map id' (List.map_filter id b)"


subsection \<open>Example inputs\<close>

text \<open>Two works that are not in the initial catalog, in a category of the caller's choice.\<close>

definition dune :: "string \<Rightarrow> BookInput" where
  "dune c = plainItem ''Dune'' ''Frank Herbert'' 1965 c"

definition emma :: "string \<Rightarrow> BookInput" where
  "emma c = plainItem ''Emma'' ''Jane Austen'' 1815 c"

section \<open>The export text\<close>

text \<open>
  \<open>formatItem\<close>, the helper of \<open>generateComprehensiveExport\<close> that writes the line of one
  item. Two things come from the host and are parameters: \<open>toLocaleDateString\<close>, which
  renders a date string in the host's time zone, and \<open>inheritedText\<close>, the text of a member
  of \<open>Object.prototype\<close>, which the lookup in \<open>formatLabels\<close> finds for a format so named.
\<close>

function digitsOf :: "nat \<Rightarrow> jsstring" where
  "digitsOf n = (if n < 10 then [48 + n] else digitsOf (n div 10) @ [48 + n mod 10])"
  by pat_completeness auto
termination
  by (relation "measure id") auto

declare digitsOf.simps [simp del]

text \<open>
  The text of an integer in a template literal, every digit written out (the source turns
  to exponent form from 1e21 on).
\<close>

definition showInt :: "int \<Rightarrow> jsstring" where
  "showInt i = (if i < 0 then 45 # digitsOf (nat (- i)) else digitsOf (nat i))"

definition bookFormatLabels :: "(jsstring \<times> jsstring) list" where
  "bookFormatLabels =
     [(str ''text'', str ''Hardcopy''), (str ''audio'', str ''Audio''), (str ''ebook'', str ''eBook'')]"

definition movieFormatLabels :: "(jsstring \<times> jsstring) list" where
  "movieFormatLabels =
     [(str ''streaming'', str ''Streaming''), (str ''theater'', str ''Theater''),
      (str ''bluray'', str ''Blu-ray''), (str ''dvd'', str ''DVD'')]"

text \<open>\<open>formatLabels[item.format] || item.format\<close>\<close>

definition labelOf :: "(jsstring \<Rightarrow> jsstring) \<Rightarrow> bool \<Rightarrow> jsstring \<Rightarrow> jsstring" where
  "labelOf inheritedText isBook f =
     (case map_of (if isBook then bookFormatLabels else movieFormatLabels) f of
        Some l \<Rightarrow> l
      | None \<Rightarrow> if f \<in> set objectPrototypeKeys then inheritedText f else f)"

text \<open>The pieces \<open>formatItem\<close> appends, each with the text of its field.\<close>

definition baseText :: "Book \<Rightarrow> nat \<Rightarrow> jsstring" where
  "baseText item index =
     showInt (int index + 1) @ str ''. \"'' @ title item @ str ''\" by '' @ author item @
     str '' ('' @ showInt (year item) @ str '')''"

definition formatText :: "(jsstring \<Rightarrow> jsstring) \<Rightarrow> bool \<Rightarrow> jsstring \<Rightarrow> jsstring" where
  "formatText inheritedText isBook f = str '' ['' @ labelOf inheritedText isBook f @ str '']''"

definition ratingText :: "int \<Rightarrow> jsstring" where
  "ratingText r = [32, 0x2B50, 32] @ showInt r @ str ''/5 stars''"

definition percentageText :: "int \<Rightarrow> jsstring" where
  "percentageText p = str '' ('' @ showInt p @ str ''% complete)''"

definition completedText :: "(jsstring \<Rightarrow> jsstring) \<Rightarrow> jsstring \<Rightarrow> jsstring" where
  "completedText toLocaleDateString d = str '' - Completed: '' @ toLocaleDateString d"

definition startedText :: "(jsstring \<Rightarrow> jsstring) \<Rightarrow> jsstring \<Rightarrow> jsstring" where
  "startedText toLocaleDateString d = str '' - Started: '' @ toLocaleDateString d"

definition addedText :: "(jsstring \<Rightarrow> jsstring) \<Rightarrow> jsstring \<Rightarrow> jsstring" where
  "addedText toLocaleDateString d = str '' - Added: '' @ toLocaleDateString d"

definition sourceText :: "jsstring \<Rightarrow> jsstring" where
  "sourceText s = str '' - Source: '' @ s"

definition allTimeText :: jsstring where
  "allTimeText = [32, 0xD83C, 0xDFC6] @ str '' ALL-TIME FAVORITE''"

definition notesText :: "jsstring \<Rightarrow> jsstring" where
  "notesText n = [10] @ str ''   Notes: \"'' @ n @ str ''\"''"

text \<open>What the source takes for true: a string that is not empty, a number that is not 0.\<close>

definition nonEmpty :: "jsstring \<Rightarrow> bool" where
  "nonEmpty s \<longleftrightarrow> s \<noteq> []"

definition nonZero :: "int \<Rightarrow> bool" where
  "nonZero n \<longleftrightarrow> n \<noteq> 0"

text \<open>\<open>item.percentage && item.percentage < 100\<close>\<close>

definition partDone :: "int \<Rightarrow> bool" where
  "partDone p \<longleftrightarrow> p \<noteq> 0 \<and> p < 100"

definition isTrue :: "bool \<Rightarrow> bool" where
  "isTrue b \<longleftrightarrow> b"

text \<open>
  One statement \<open>if (test) { itemText += text; }\<close> of the source: the test reads a field,
  which may be \<open>undefined\<close>.
\<close>

definition appendIf :: "jsstring \<Rightarrow> 'a option \<Rightarrow> ('a \<Rightarrow> bool) \<Rightarrow> ('a \<Rightarrow> jsstring) \<Rightarrow> jsstring" where
  "appendIf itemText field test text =
     (case field of
        None \<Rightarrow> itemText
      | Some v \<Rightarrow> if test v then itemText @ text v else itemText)"

text \<open>
  The function of the source: \<open>itemText\<close> starts as the base text and goes through one
  \<open>if\<close> after the other, each appending to it.
\<close>

definition formatItem ::
  "(jsstring \<Rightarrow> jsstring) \<Rightarrow> (jsstring \<Rightarrow> jsstring) \<Rightarrow> Book \<Rightarrow> nat \<Rightarrow> bool \<Rightarrow> jsstring" where
  "formatItem toLocaleDateString inheritedText item index isBook =
     (let itemText = baseText item index;
          itemText = appendIf itemText (format item) nonEmpty (formatText inheritedText isBook);
          itemText = appendIf itemText (rating item) nonZero ratingText;
          itemText = appendIf itemText (percentage item) partDone percentageText;
          itemText = appendIf itemText (completedDate item) nonEmpty
                       (completedText toLocaleDateString);
          itemText = appendIf itemText (dateStarted item) nonEmpty
                       (startedText toLocaleDateString);
          itemText = appendIf itemText (dateAdded item) nonEmpty (addedText toLocaleDateString);
          itemText = appendIf itemText (source item) nonEmpty sourceText;
          itemText = appendIf itemText (isAllTime item) isTrue (\<lambda>b. allTimeText);
          itemText = appendIf itemText (notes' item) nonEmpty notesText
      in itemText)"

text \<open>
  The line as the export format of the spec words it: every optional field that is
  present on the item is appended, in the fixed order. This definition follows the
  spec, not the source; \<open>formatItem\<close> is compared with it.
\<close>

definition whenPresent :: "'a option \<Rightarrow> ('a \<Rightarrow> jsstring) \<Rightarrow> jsstring" where
  "whenPresent field text = (case field of None \<Rightarrow> [] | Some v \<Rightarrow> text v)"

definition exportLineSpec ::
  "(jsstring \<Rightarrow> jsstring) \<Rightarrow> (jsstring \<Rightarrow> jsstring) \<Rightarrow> Book \<Rightarrow> nat \<Rightarrow> bool \<Rightarrow> jsstring" where
  "exportLineSpec toLocaleDateString inheritedText item index isBook =
     baseText item index @
     whenPresent (format item) (formatText inheritedText isBook) @
     whenPresent (rating item) ratingText @
     whenPresent (percentage item) percentageText @
     whenPresent (completedDate item) (completedText toLocaleDateString) @
     whenPresent (dateStarted item) (startedText toLocaleDateString) @
     whenPresent (dateAdded item) (addedText toLocaleDateString) @
     whenPresent (source item) sourceText @
     whenPresent (isAllTime item) (\<lambda>b. allTimeText) @
     whenPresent (notes' item) notesText"

text \<open>A piece that is there exactly when its field passes a test.\<close>

definition whenTruthy :: "'a option \<Rightarrow> ('a \<Rightarrow> bool) \<Rightarrow> ('a \<Rightarrow> jsstring) \<Rightarrow> jsstring" where
  "whenTruthy field test text =
     (case field of None \<Rightarrow> [] | Some v \<Rightarrow> if test v then text v else [])"


section \<open>Lemmas on the updaters\<close>

lemma andThen_Inr_iff: "andThen r f = Inr y \<longleftrightarrow> (\<exists>x. r = Inr x \<and> f x = Inr y)"
  by (cases r) (simp_all add: andThen_def)

lemma filterId_subset: "filterId i b = Inr r \<Longrightarrow> set r \<subseteq> set b"
proof (induction b arbitrary: r)
  case Nil
  then show ?case by simp
next
  case (Cons e b)
  show ?case
  proof (cases e)
    case None
    with Cons.prems show ?thesis by simp
  next
    case (Some item)
    with Cons.prems obtain r' where r': "filterId i b = Inr r'"
      and r: "r = (if id' item \<noteq> i then Some item # r' else r')"
      by (auto simp: andThen_Inr_iff)
    from Cons.IH [OF r'] r Some show ?thesis by auto
  qed
qed

lemma getBucket_setBucket:
  "getBucket (setBucket d k b) k' = (if k' = k then b else getBucket d k')"
  by (cases k; cases k') (simp_all add: getBucket_def setBucket_def)

lemma noHoles_getBucket: "noHoles d \<longleftrightarrow> (\<forall>k. None \<notin> set (getBucket d k))"
proof
  assume "noHoles d"
  then show "\<forall>k. None \<notin> set (getBucket d k)"
    by (auto simp: noHoles_def getBucket_def split: key.splits)
next
  assume h: "\<forall>k. None \<notin> set (getBucket d k)"
  from h [rule_format, of Completed] h [rule_format, of InProgress] h [rule_format, of Planned]
    h [rule_format, of Fails] h [rule_format, of AllTime]
  show "noHoles d" by (simp add: noHoles_def getBucket_def)
qed

lemma allTime_getBucket: "allTime d = getBucket d AllTime"
  by (simp add: getBucket_def)

lemma allTime_update_setBucket: "d\<lparr>allTime := b\<rparr> = setBucket d AllTime b"
  by (simp add: setBucket_def)

lemma noHoles_setBucket: "noHoles d \<Longrightarrow> None \<notin> set b \<Longrightarrow> noHoles (setBucket d k b)"
  by (simp add: noHoles_getBucket getBucket_setBucket)

lemma addUpdater_entries:
  "addUpdater n d = Inr s \<Longrightarrow> set (getBucket s k) \<subseteq> set (getBucket d k) \<union> {Some n}"
  by (auto simp: addUpdater_def andThen_Inr_iff getBucket_setBucket
      split: option.splits if_splits)

lemma mirrorAllTime_entries:
  "mirrorAllTime n d = Inr s \<Longrightarrow>
   set (getBucket s k) \<subseteq> set (getBucket d k) \<union> {Some (n\<lparr>isAllTime := Some True\<rparr>)}"
proof -
  assume "mirrorAllTime n d = Inr s"
  then obtain r where r: "filterId (id' n) (getBucket d AllTime) = Inr r"
    and s: "s = setBucket d AllTime (r @ [Some (n\<lparr>isAllTime := Some True\<rparr>)])"
    by (auto simp: mirrorAllTime_def andThen_Inr_iff allTime_getBucket allTime_update_setBucket)
  from filterId_subset [OF r] s show ?thesis
    by (auto simp: getBucket_setBucket)
qed

lemma removeEverywhere_entries:
  "removeEverywhere i d ks nb = Inr r \<Longrightarrow>
   set (getBucket r k) \<subseteq> set (getBucket d k) \<union> set (getBucket nb k)"
proof (induction ks arbitrary: nb)
  case Nil
  then show ?case by auto
next
  case (Cons k' ks)
  from Cons.prems obtain b where b: "filterId i (getBucket d k') = Inr b"
    and r: "removeEverywhere i d ks (setBucket nb k' b) = Inr r"
    by (auto simp: andThen_Inr_iff)
  from Cons.IH [OF r] filterId_subset [OF b] show ?case
    by (auto simp: getBucket_setBucket split: if_splits)
qed

lemma updateUpdater_entries:
  assumes "updateUpdater i u d = Inr s"
  shows "set (getBucket s k) \<subseteq> set (getBucket d k) \<union> {Some u}"
proof -
  from assms obtain old where old: "findCategory i d objectKeys = Inr old"
    by (auto simp: updateUpdater_def andThen_Inr_iff)
  show ?thesis
  proof (cases old)
    case None
    with assms old have "s = d" by (simp add: updateUpdater_def andThen_def)
    then show ?thesis by auto
  next
    case (Some c)
    with assms old obtain nb k' where nb: "removeEverywhere i d objectKeys d = Inr nb"
      and s: "s = setBucket nb k' (getBucket nb k' @ [Some u])"
      by (auto simp: updateUpdater_def andThen_Inr_iff split: option.splits)
    from removeEverywhere_entries [OF nb] s show ?thesis
      by (auto simp: getBucket_setBucket split: if_splits)
  qed
qed

lemma allTimeUpdater_entries:
  assumes "allTimeUpdater u d = Inr s"
  shows "set (getBucket s k) \<subseteq> set (getBucket d k) \<union> {Some (u\<lparr>isAllTime := Some True\<rparr>)}"
proof (cases "isAllTime u = Some True \<and> category u \<noteq> Some (str ''allTime'')")
  case True
  with assms have "mirrorAllTime u d = Inr s" by (simp add: allTimeUpdater_def)
  then show ?thesis by (rule mirrorAllTime_entries)
next
  case False
  show ?thesis
  proof (cases "isAllTime u \<noteq> Some True")
    case True
    with False assms obtain r where r: "filterId (id' u) (getBucket d AllTime) = Inr r"
      and s: "s = setBucket d AllTime r"
      by (auto simp: allTimeUpdater_def andThen_Inr_iff allTime_getBucket
          allTime_update_setBucket)
    from filterId_subset [OF r] s show ?thesis
      by (auto simp: getBucket_setBucket split: if_splits)
  next
    case nt: False
    with False assms have "s = d" by (simp add: allTimeUpdater_def)
    then show ?thesis by auto
  qed
qed

lemma addBook_entries:
  assumes "addBook now random book d = Inr s" "Some x \<in> set (getBucket s k)"
    "Some x \<notin> set (getBucket d k)"
  shows "x = newBookOf now random book \<or> x = (newBookOf now random book)\<lparr>isAllTime := Some True\<rparr>"
proof -
  let ?n = "newBookOf now random book"
  from assms(1) obtain s1 where s1: "addUpdater ?n d = Inr s1"
    and s: "s = s1 \<or> mirrorAllTime ?n s1 = Inr s"
    by (auto simp: addBook_def Let_def andThen_Inr_iff split: if_splits)
  from s show ?thesis
  proof
    assume "s = s1"
    with addUpdater_entries [OF s1, of k] assms show ?thesis by auto
  next
    assume "mirrorAllTime ?n s1 = Inr s"
    from mirrorAllTime_entries [OF this, of k] addUpdater_entries [OF s1, of k] assms
    show ?thesis by auto
  qed
qed

lemma updateBook_entries:
  assumes "updateBook i u d = Inr s" "Some x \<in> set (getBucket s k)"
    "Some x \<notin> set (getBucket d k)"
  shows "x = u \<or> x = u\<lparr>isAllTime := Some True\<rparr>"
proof -
  from assms(1) obtain s1 where s1: "updateUpdater i u d = Inr s1"
    and s: "allTimeUpdater u s1 = Inr s"
    by (auto simp: updateBook_def andThen_Inr_iff)
  from allTimeUpdater_entries [OF s, of k] updateUpdater_entries [OF s1, of k] assms
  show ?thesis by auto
qed

lemma percentage_newBookOf:
  "percentage (newBookOf now random book) =
     (if truthyNum (percentage book) then percentage book
      else if category book = Some (str ''completed'') then Some 100 else Some 0)"
  by (simp add: newBookOf_def)


lemma formatItem_steps:
  "formatItem toLocaleDateString inheritedText item index isBook =
     appendIf (appendIf (appendIf (appendIf (appendIf (appendIf (appendIf (appendIf (appendIf
       (baseText item index)
       (format item) nonEmpty (formatText inheritedText isBook))
       (rating item) nonZero ratingText)
       (percentage item) partDone percentageText)
       (completedDate item) nonEmpty (completedText toLocaleDateString))
       (dateStarted item) nonEmpty (startedText toLocaleDateString))
       (dateAdded item) nonEmpty (addedText toLocaleDateString))
       (source item) nonEmpty sourceText)
       (isAllTime item) isTrue (\<lambda>b. allTimeText))
       (notes' item) nonEmpty notesText"
  by (simp only: formatItem_def Let_def)

lemma appendIf_whenTruthy: "appendIf t f test text = t @ whenTruthy f test text"
  by (simp add: appendIf_def whenTruthy_def split: option.splits)

section \<open>Evaluation\<close>

text \<open>The equations that evaluate the parser, the store and the export line on a given input.\<close>

lemmas parser_defs =
  parseImportText_def str_def toLowerCase_def lowerUnit_def trim_def isSpace_def parseLine_def
  someIn_def completedKeywords_def inProgressKeywords_def plannedKeywords_def failsKeywords_def
  allTimeKeywords_def bookKeywords_def movieKeywords_def headerType_def

lemmas item_defs =
  parseItem_def matchAt_def itemRe_def patterns_def ordinalRe_def yearRe_def ratingRe_def
  notesQuotedRe_def notesPlainRe_def formatRe_def stripQuotes_def isQuote_def beforeBracket_def
  titleAuthor_def extractYear_def extractRating_def extractNotes_def extractFormat_def score_def
  resolveIsBook_def confidenceOf_def plusOf_def starOf_def optOf_def isUnit_def notUnit_def
  lit_def liti_def finish_def group_def maxRun_def backtrack.simps litMatches_def upperUnit_def
  isDigit_def isDot_def parseInt_def Let_def

lemmas store_defs =
  dune_def emma_def plainItem_def withId_def initialBooks_def addBook_def newBookOf_def uniqueId_def truthyStr_def
  truthyNum_def addUpdater_def mirrorAllTime_def keyOf_def inherited_def getBucket_def
  setBucket_def andThen_def sameWork_def updateBook_def updateUpdater_def allTimeUpdater_def
  objectKeys_def deleteBook_def reorderBooks_def spliceStart_def importItems_def importOne_def
  logDataState_def
  str_def toLowerCase_def lowerUnit_def BookInput.defs Book.defs idsOf_def List.map_filter_def
  noDuplicates_def noHoles_def uniqueBucket_def workKey_def objectPrototypeKeys_def

lemmas format_defs =
  formatItem_steps exportLineSpec_def whenPresent_def baseText_def formatText_def ratingText_def
  percentageText_def completedText_def startedText_def addedText_def sourceText_def
  allTimeText_def notesText_def labelOf_def bookFormatLabels_def movieFormatLabels_def
  showInt_def digitsOf.simps str_def dune_def emma_def plainItem_def withId_def BookInput.defs Book.defs
  objectPrototypeKeys_def appendIf_def nonEmpty_def nonZero_def partDone_def isTrue_def

lemma parse_oppenheimer:
  "parseImportText (str ''Oppenheimer - Christopher Nolan (2023)'') =
     [\<lparr>pTitle = str ''Oppenheimer'', pAuthor = str ''Christopher Nolan'', pYear = Some 2023,
       pRating = None, pNotes = None, pFormat = None, pCategory = str ''completed'',
       pIsBook = True, pConfidence = 9 / 10\<rparr>]"
  by (simp add: parser_defs item_defs)

lemma parse_dune_seven:
  "parseImportText (str ''Dune - Frank Herbert (1965) [audio] 7/5'') =
     [\<lparr>pTitle = str ''Dune'', pAuthor = str ''Frank Herbert'', pYear = Some 1965,
       pRating = Some 7, pNotes = None, pFormat = Some (str ''audio''),
       pCategory = str ''completed'', pIsBook = True, pConfidence = 1\<rparr>]"
  by (simp add: parser_defs item_defs)

text \<open>
  The line of claim C7 without its star emoji parses as the spec's scenario says; with the
  emoji it never reaches the item patterns (see C7 below).
\<close>

lemma parse_hail_mary_without_star:
  "parseImportText (str ''1. \"Project Hail Mary\" by Andy Weir (2021) 5/5'') =
     [\<lparr>pTitle = str ''Project Hail Mary'', pAuthor = str ''Andy Weir'', pYear = Some 2021,
       pRating = Some 5, pNotes = None, pFormat = None, pCategory = str ''completed'',
       pIsBook = True, pConfidence = 1\<rparr>]"
  by (simp add: parser_defs item_defs)

text \<open>
  \<open>reorderBooks\<close> keeps a catalog free of \<open>undefined\<close> entries when \<open>fromIndex\<close> selects an
  entry of the bucket.
\<close>

lemma reorderBooks_noHoles:
  assumes "noHoles d" "keyOf (Some cat) = Some k"
    "spliceStart fromIndex (length (getBucket d k)) < length (getBucket d k)"
    "reorderBooks cat fromIndex toIndex d = Inr s"
  shows "noHoles s"
proof -
  define items where "items = getBucket d k"
  define i where "i = spliceStart fromIndex (length items)"
  define items1 where "items1 = take i items @ drop (i + 1) items"
  define j where "j = spliceStart toIndex (length items1)"
  from assms(1) have n: "None \<notin> set items" by (simp add: noHoles_getBucket items_def)
  from assms(3) have "i < length items" by (simp add: i_def items_def)
  then obtain x xs where dr: "drop i items = x # xs"
    by (cases "drop i items") auto
  then have "x \<in> set items"
    using set_drop_subset [of i items] by auto
  with n have x: "x \<noteq> None" by (cases x) auto
  from n have n1: "None \<notin> set items1"
    using set_take_subset [of i items] set_drop_subset [of "i + 1" items]
    by (auto simp: items1_def)
  with x have n2: "None \<notin> set (take j items1 @ [x] @ drop j items1)"
    using set_take_subset [of j items1] set_drop_subset [of j items1] by auto
  from assms(2,4) have "s = setBucket d k (take j items1 @
      [case take 1 (drop i items) of [] \<Rightarrow> None | y # ys \<Rightarrow> y] @ drop j items1)"
    by (simp add: reorderBooks_def Let_def items_def i_def items1_def j_def)
  with dr have "s = setBucket d k (take j items1 @ [x] @ drop j items1)"
    by simp
  with n2 assms(1) show ?thesis by (simp add: noHoles_setBucket)
qed

section \<open>The claims\<close>

text \<open>
  C1 (code differs). The claim: every item stored by \<open>addBook\<close> or \<open>importItems\<close> gets an
  integer id that no other item of the catalog has, also within one millisecond. On the
  code: two calls of \<open>addBook\<close> that read the same clock value and draw the same random
  number store two items under one id, and \<open>importItems\<close>, which does not round, stores an
  id that is no integer.
\<close>

theorem addBook_same_millisecond_collision:
  "(\<exists>s. andThen (addBook 1700000000000 (1/4) (dune ''planned'') initialBooks)
           (addBook 1700000000000 (1/4) (emma ''planned'')) = Inr s \<and>
        idsOf (planned s) = [200, 1700000025000, 1700000025000]) \<and>
   (\<exists>s. importItems [(1700000000000, 1/1024, dune ''planned'')] initialBooks = Inr s \<and>
        idsOf (planned s) = [200, 1700000000000 + 125/128]) \<and>
   (1700000000000 + 125/128 :: rat) \<notin> \<int>"
proof (intro conjI)
  show "\<exists>s. andThen (addBook 1700000000000 (1/4) (dune ''planned'') initialBooks)
           (addBook 1700000000000 (1/4) (emma ''planned'')) = Inr s \<and>
        idsOf (planned s) = [200, 1700000025000, 1700000025000]"
    by (simp add: store_defs)
  show "\<exists>s. importItems [(1700000000000, 1/1024, dune ''planned'')] initialBooks = Inr s \<and>
        idsOf (planned s) = [200, 1700000000000 + 125/128]"
    by (simp add: store_defs)
  show "(1700000000000 + 125/128 :: rat) \<notin> \<int>"
    by (simp flip: of_int_floor_cancel)
qed

text \<open>
  C2 (code differs). The claim: adding the same title and author twice, in any case, to
  the same category leaves one stored item and the second call changes nothing, also for
  an all-time favourite. On the code: the second call is rejected in the bucket of its
  category, but its all-time updater runs all the same and appends a second mirror to
  the \<open>allTime\<close> bucket.
\<close>

theorem addBook_duplicate_favorite_mirrored_again:
  "\<exists>s1 s2.
     addBook 1700000000000 (1/4) ((dune ''completed'')\<lparr>isAllTime := Some True\<rparr>) initialBooks = Inr s1 \<and>
     addBook 1700000000001 (1/2)
       ((plainItem ''DUNE'' ''frank herbert'' 1965 ''completed'')\<lparr>isAllTime := Some True\<rparr>) s1 = Inr s2 \<and>
     idsOf (completed s1) = [1, 2, 1700000025000] \<and>
     idsOf (completed s2) = [1, 2, 1700000025000] \<and>
     idsOf (allTime s1) = [400, 1700000025000] \<and>
     idsOf (allTime s2) = [400, 1700000025000, 1700000050001] \<and>
     s2 \<noteq> s1"
  by (simp add: store_defs Let_def)

text \<open>
  C3, as stated: after any add or update a completed item has percentage 100, whatever
  percentage the caller supplied. It fails: \<open>addBook\<close> keeps a supplied percentage of 50
  on a completed item.
\<close>

theorem addBook_completed_keeps_percentage:
  "addBook 1700000000000 0 ((dune ''completed'')\<lparr>percentage := Some 50\<rparr>) initialBooks =
     Inr (initialBooks\<lparr>completed := completed initialBooks @
            [Some (withId 1700000000000 ((dune ''completed'')\<lparr>percentage := Some 50\<rparr>))]\<rparr>)"
  by (simp add: store_defs)

text \<open>
  C3, amended: an item that \<open>addBook\<close> newly stores with the category \<open>completed\<close> has the
  percentage 100 when the caller supplied none or 0, and the supplied percentage
  otherwise; an item that \<open>updateBook\<close> newly stores has the percentage of the updated
  item it was given.
\<close>

theorem completed_percentage_amended:
  "(category book = Some (str ''completed'') \<and> addBook now random book prevBooks = Inr s \<and>
    Some x \<in> set (getBucket s k) \<and> Some x \<notin> set (getBucket prevBooks k)
    \<longrightarrow> percentage x = (if truthyNum (percentage book) then percentage book else Some 100)) \<and>
   (updateBook bookId updatedBook prevBooks = Inr s' \<and>
    Some y \<in> set (getBucket s' k') \<and> Some y \<notin> set (getBucket prevBooks k')
    \<longrightarrow> percentage y = percentage updatedBook)"
proof (intro conjI impI)
  assume h: "category book = Some (str ''completed'') \<and> addBook now random book prevBooks = Inr s \<and>
    Some x \<in> set (getBucket s k) \<and> Some x \<notin> set (getBucket prevBooks k)"
  then have "x = newBookOf now random book \<or> x = (newBookOf now random book)\<lparr>isAllTime := Some True\<rparr>"
    using addBook_entries by blast
  with h show "percentage x = (if truthyNum (percentage book) then percentage book else Some 100)"
    by (auto simp: percentage_newBookOf)
next
  assume "updateBook bookId updatedBook prevBooks = Inr s' \<and>
    Some y \<in> set (getBucket s' k') \<and> Some y \<notin> set (getBucket prevBooks k')"
  then have "y = updatedBook \<or> y = updatedBook\<lparr>isAllTime := Some True\<rparr>"
    using updateBook_entries by blast
  then show "percentage y = percentage updatedBook" by auto
qed

text \<open>
  C3, amended, at the initial catalog: adding Dune as completed with no percentage stores
  it with 100; updating item 200 to a completed item with percentage 40 stores 40.
\<close>

theorem completed_percentage_amended_witness:
  "category (dune ''completed'') = Some (str ''completed'') \<and>
   addBook 1700000000000 (1/4) (dune ''completed'') initialBooks =
     Inr (initialBooks\<lparr>completed := completed initialBooks @
            [Some (newBookOf 1700000000000 (1/4) (dune ''completed''))]\<rparr>) \<and>
   Some (newBookOf 1700000000000 (1/4) (dune ''completed'')) \<in>
     set (getBucket (initialBooks\<lparr>completed := completed initialBooks @
            [Some (newBookOf 1700000000000 (1/4) (dune ''completed''))]\<rparr>) Completed) \<and>
   Some (newBookOf 1700000000000 (1/4) (dune ''completed'')) \<notin>
     set (getBucket initialBooks Completed) \<and>
   percentage (newBookOf 1700000000000 (1/4) (dune ''completed'')) = Some 100 \<and>
   updateBook 200 (withId 200 ((dune ''completed'')\<lparr>percentage := Some 40\<rparr>)) initialBooks =
     Inr (initialBooks\<lparr>planned := [], completed := completed initialBooks @
            [Some (withId 200 ((dune ''completed'')\<lparr>percentage := Some 40\<rparr>))]\<rparr>) \<and>
   Some (withId 200 ((dune ''completed'')\<lparr>percentage := Some 40\<rparr>)) \<in>
     set (getBucket (initialBooks\<lparr>planned := [], completed := completed initialBooks @
            [Some (withId 200 ((dune ''completed'')\<lparr>percentage := Some 40\<rparr>))]\<rparr>) Completed) \<and>
   Some (withId 200 ((dune ''completed'')\<lparr>percentage := Some 40\<rparr>)) \<notin>
     set (getBucket initialBooks Completed) \<and>
   percentage (withId 200 ((dune ''completed'')\<lparr>percentage := Some 40\<rparr>)) = Some 40"
proof -
  let ?b = "dune ''completed''"
  let ?x = "newBookOf 1700000000000 (1/4) ?b"
  let ?s = "initialBooks\<lparr>completed := completed initialBooks @ [Some ?x]\<rparr>"
  let ?u = "withId 200 (?b\<lparr>percentage := Some 40\<rparr>)"
  let ?s' = "initialBooks\<lparr>planned := [], completed := completed initialBooks @ [Some ?u]\<rparr>"
  have a1: "category ?b = Some (str ''completed'')"
    by (simp add: dune_def plainItem_def)
  have a2: "addBook 1700000000000 (1/4) ?b initialBooks = Inr ?s"
    by (simp add: store_defs Let_def)
  have a3: "Some ?x \<in> set (getBucket ?s Completed)"
    by (simp add: getBucket_def)
  have a4: "Some ?x \<notin> set (getBucket initialBooks Completed)"
    by (simp add: store_defs)
  have a5: "\<not> truthyNum (percentage ?b)"
    by (simp add: store_defs)
  have b1: "updateBook 200 ?u initialBooks = Inr ?s'"
    by (simp add: store_defs)
  have b2: "Some ?u \<in> set (getBucket ?s' Completed)"
    by (simp add: getBucket_def)
  have b3: "Some ?u \<notin> set (getBucket initialBooks Completed)"
    by (simp add: store_defs)
  from completed_percentage_amended [of ?b 1700000000000 "1/4" initialBooks ?s ?x Completed
      200 ?u ?s' ?u Completed] a1 a2 a3 a4 a5 b1 b2 b3
  have c: "percentage ?x = Some 100 \<and> percentage ?u = percentage ?u"
    by simp
  have d: "percentage ?u = Some 40"
    by (simp add: store_defs)
  from a1 a2 a3 a4 c b1 b2 b3 d show ?thesis by blast
qed

text \<open>
  C4 (code differs). The claim: \<open>updateBook\<close> with an id that is in no bucket leaves the
  catalog unchanged, whatever the new item. On the code: the id 999 is in no bucket of
  the initial catalog, the first updater returns the state unchanged, and the all-time
  updater then appends the new item, marked as a favourite, to \<open>allTime\<close>.
\<close>

theorem updateBook_missing_id_changes_allTime:
  "findCategory 999 initialBooks objectKeys = Inr None \<and>
   updateBook 999 (withId 999 ((dune ''planned'')\<lparr>isAllTime := Some True\<rparr>)) initialBooks =
     Inr (initialBooks\<lparr>allTime := allTime initialBooks @
            [Some (withId 999 ((dune ''planned'')\<lparr>isAllTime := Some True\<rparr>))]\<rparr>)"
  by (simp add: store_defs)

text \<open>
  C5 (code differs). The claim: no operation of the store ever throws, and \<open>deleteBook\<close>,
  \<open>reorderBooks\<close> and \<open>importItems\<close> given a category name that is none of the five buckets
  reject it and leave the state unchanged, for every id, index and item. On the code:
  \<open>reorderBooks\<close> with the category \<open>planned\<close> and the index 5, past the end of the bucket,
  stores \<open>undefined\<close> in it, after which the logging effect throws and so does the next
  \<open>deleteBook\<close>; and with the name \<open>archive\<close> the updaters of \<open>deleteBook\<close>, \<open>reorderBooks\<close>
  and \<open>importItems\<close> throw a TypeError, while \<open>addBook\<close>, which tests the category, rejects
  the same name and leaves the state as it was.
\<close>

theorem store_operations_throw:
  "reorderBooks (str ''planned'') 5 0 initialBooks =
     Inr (initialBooks\<lparr>planned := None # planned initialBooks\<rparr>) \<and>
   logDataState (initialBooks\<lparr>planned := None # planned initialBooks\<rparr>) = Inl TypeError \<and>
   andThen (reorderBooks (str ''planned'') 5 0 initialBooks) (deleteBook 200 (str ''planned'')) =
     Inl TypeError \<and>
   deleteBook 1 (str ''archive'') initialBooks = Inl TypeError \<and>
   reorderBooks (str ''archive'') 0 1 initialBooks = Inl TypeError \<and>
   importItems [(1700000000000, 1/4, dune ''archive'')] initialBooks = Inl TypeError \<and>
   addBook 1700000000000 (1/4) (dune ''archive'') initialBooks = Inr initialBooks"
  by (simp add: store_defs Let_def)

text \<open>
  C6 (code differs). The claim: in every reachable state no two items of a bucket have
  the same title and author up to case. On the code: the initial catalog has the
  property; \<open>importItems\<close>, which runs no duplicate test, adds a second copy of a work to
  the \<open>completed\<close> bucket, and \<open>updateBook\<close> turns item 2 into a second copy of item 1.
\<close>

theorem import_and_update_break_uniqueness:
  "noDuplicates initialBooks \<and>
   (\<exists>s. importItems [(1700000000000, 1/4, plainItem ''the wager'' ''DAVID GRANN'' 2024 ''completed'')]
          initialBooks = Inr s \<and> \<not> noDuplicates s) \<and>
   (\<exists>s. updateBook 2 (withId 2 (plainItem ''The Wager'' ''David Grann'' 2024 ''completed''))
          initialBooks = Inr s \<and> \<not> noDuplicates s)"
  by (simp add: store_defs)

text \<open>
  C7 (code differs). The claim: the line
  \<open>1. "Project Hail Mary" by Andy Weir (2021) * 5/5\<close>, where \<open>*\<close> is the star emoji U+2B50,
  gives one candidate. On the code: the star emoji is one of \<open>allTimeKeywords\<close>, so the
  line is taken for the header of the all-time section and gives no candidate.
\<close>

theorem parse_star_rated_line_is_header:
  "parseImportText
     (str ''1. \"Project Hail Mary\" by Andy Weir (2021) '' @ [0x2B50] @ str '' 5/5'') = []"
  by (simp add: parser_defs)

text \<open>
  C8, as stated: the line \<open>Oppenheimer - Christopher Nolan (2023)\<close> gives a candidate whose
  \<open>isBook\<close> is false. It fails: no keyword of either kind is in the line, the scores tie
  at 0, and the tie-break makes it a book.
\<close>

theorem parse_oppenheimer_is_book:
  "map pIsBook (parseImportText (str ''Oppenheimer - Christopher Nolan (2023)'')) = [True]"
  by (simp add: parse_oppenheimer)

text \<open>
  C8, amended: the line \<open>Oppenheimer - Christopher Nolan (2023)\<close>, with no header before
  it, gives one candidate with title \<open>Oppenheimer\<close>, author \<open>Christopher Nolan\<close>, year 2023
  and \<open>isBook\<close> true.
\<close>

theorem parse_oppenheimer_amended:
  "map pTitle (parseImportText (str ''Oppenheimer - Christopher Nolan (2023)'')) =
     [str ''Oppenheimer''] \<and>
   map pAuthor (parseImportText (str ''Oppenheimer - Christopher Nolan (2023)'')) =
     [str ''Christopher Nolan''] \<and>
   map pYear (parseImportText (str ''Oppenheimer - Christopher Nolan (2023)'')) = [Some 2023] \<and>
   map pIsBook (parseImportText (str ''Oppenheimer - Christopher Nolan (2023)'')) = [True]"
  by (simp add: parse_oppenheimer)

text \<open>
  C9, as stated: each optional field is appended to the line of an item if and only if
  it is present. It fails: an item with rating 0 and percentage 100 has both fields, and
  \<open>formatItem\<close> writes neither.
\<close>

theorem formatItem_omits_present_fields:
  "formatItem id id (withId 1 ((dune ''completed'')\<lparr>rating := Some 0, percentage := Some 100\<rparr>)) 0 True =
     str ''1. \"Dune\" by Frank Herbert (1965)'' \<and>
   exportLineSpec id id (withId 1 ((dune ''completed'')\<lparr>rating := Some 0, percentage := Some 100\<rparr>)) 0 True =
     str ''1. \"Dune\" by Frank Herbert (1965) '' @ [0x2B50] @ str '' 0/5 stars (100% complete)'' \<and>
   formatItem id id (withId 1 ((dune ''completed'')\<lparr>rating := Some 0, percentage := Some 100\<rparr>)) 0 True \<noteq>
   exportLineSpec id id (withId 1 ((dune ''completed'')\<lparr>rating := Some 0, percentage := Some 100\<rparr>)) 0 True"
  by (simp add: format_defs)

text \<open>
  C9, amended: the line of an item is the base text followed, in this order, by the
  pieces for format, rating, percentage, completed date, start date, added date, source,
  all-time marker and notes, each there exactly when its field is there and truthy (a
  string that is not empty, a number that is not 0, the flag true), the percentage only
  when it is also below 100.
\<close>

theorem formatItem_amended:
  "formatItem toLocaleDateString inheritedText item index isBook =
     baseText item index @
     whenTruthy (format item) nonEmpty (formatText inheritedText isBook) @
     whenTruthy (rating item) nonZero ratingText @
     whenTruthy (percentage item) partDone percentageText @
     whenTruthy (completedDate item) nonEmpty (completedText toLocaleDateString) @
     whenTruthy (dateStarted item) nonEmpty (startedText toLocaleDateString) @
     whenTruthy (dateAdded item) nonEmpty (addedText toLocaleDateString) @
     whenTruthy (source item) nonEmpty sourceText @
     whenTruthy (isAllTime item) isTrue (\<lambda>b. allTimeText) @
     whenTruthy (notes' item) nonEmpty notesText"
  by (simp only: formatItem_steps appendIf_whenTruthy append_assoc)

text \<open>
  C10. The parser never clamps a rating to the range 0 to 5 of the data model: the line
  \<open>Dune - Frank Herbert (1965) [audio] 7/5\<close> gives one candidate whose rating is 7, while
  its confidence, 0.5 + 0.3 + 0.1 + 0.1 + 0.1 before the cap, is capped at 1.
\<close>

theorem parse_rating_unclamped:
  "map pRating (parseImportText (str ''Dune - Frank Herbert (1965) [audio] 7/5'')) = [Some 7] \<and>
   map pConfidence (parseImportText (str ''Dune - Frank Herbert (1965) [audio] 7/5'')) = [1]"
  by (simp add: parse_dune_seven)

end
